theory Spec2Isabelle
  imports Complex_Main
begin

section \<open>JavaScript numbers\<close>

text \<open>
  The program computes with JavaScript numbers. A number is modelled as a real, or one of
  the three special values that division produces: \<open>Infinity\<close>, \<open>-Infinity\<close> and
  \<open>NaN\<close>. Rounding and overflow of the 64-bit format are not modelled (every finite
  result is exact), and the sign of zero is not tracked: a zero divisor counts as \<open>+0\<close>.
  In the functions below a divisor that can be zero is a period (a count) or a sum of
  non-negative terms starting at \<open>0\<close>, which is \<open>+0\<close> in the program as well.
  Array lengths, indices and periods are natural numbers.
\<close>

datatype jsnum = Num real | PosInfinity | NegInfinity | NaN

fun js_neg :: "jsnum \<Rightarrow> jsnum" where
  "js_neg (Num a) = Num (- a)"
| "js_neg PosInfinity = NegInfinity"
| "js_neg NegInfinity = PosInfinity"
| "js_neg NaN = NaN"

fun js_add :: "jsnum \<Rightarrow> jsnum \<Rightarrow> jsnum" where
  "js_add (Num a) (Num b) = Num (a + b)"
| "js_add NaN y = NaN"
| "js_add x NaN = NaN"
| "js_add PosInfinity NegInfinity = NaN"
| "js_add NegInfinity PosInfinity = NaN"
| "js_add PosInfinity y = PosInfinity"
| "js_add x PosInfinity = PosInfinity"
| "js_add NegInfinity y = NegInfinity"
| "js_add x NegInfinity = NegInfinity"

definition js_sub :: "jsnum \<Rightarrow> jsnum \<Rightarrow> jsnum" where
  "js_sub x y = js_add x (js_neg y)"

text \<open>The infinity of a given sign: \<open>True\<close> for the positive one.\<close>

definition js_infinity :: "bool \<Rightarrow> jsnum" where
  "js_infinity positive = (if positive then PosInfinity else NegInfinity)"

fun js_mul :: "jsnum \<Rightarrow> jsnum \<Rightarrow> jsnum" where
  "js_mul (Num a) (Num b) = Num (a * b)"
| "js_mul NaN y = NaN"
| "js_mul x NaN = NaN"
| "js_mul PosInfinity (Num b) = (if b = 0 then NaN else js_infinity (0 < b))"
| "js_mul NegInfinity (Num b) = (if b = 0 then NaN else js_infinity (b < 0))"
| "js_mul (Num a) PosInfinity = (if a = 0 then NaN else js_infinity (0 < a))"
| "js_mul (Num a) NegInfinity = (if a = 0 then NaN else js_infinity (a < 0))"
| "js_mul PosInfinity PosInfinity = PosInfinity"
| "js_mul NegInfinity NegInfinity = PosInfinity"
| "js_mul PosInfinity NegInfinity = NegInfinity"
| "js_mul NegInfinity PosInfinity = NegInfinity"

fun js_div :: "jsnum \<Rightarrow> jsnum \<Rightarrow> jsnum" where
  "js_div (Num a) (Num b) =
     (if b \<noteq> 0 then Num (a / b)
      else if a = 0 then NaN
      else js_infinity (0 < a))"
| "js_div NaN y = NaN"
| "js_div x NaN = NaN"
| "js_div (Num a) PosInfinity = Num 0"
| "js_div (Num a) NegInfinity = Num 0"
| "js_div PosInfinity (Num b) = js_infinity (0 \<le> b)"
| "js_div NegInfinity (Num b) = js_infinity (b < 0)"
| "js_div PosInfinity PosInfinity = NaN"
| "js_div PosInfinity NegInfinity = NaN"
| "js_div NegInfinity PosInfinity = NaN"
| "js_div NegInfinity NegInfinity = NaN"

text \<open>\<open>Math.abs\<close>, \<open>Math.max\<close> of two arguments, \<open>Math.sqrt\<close> and \<open>Math.pow(x, 2)\<close>.\<close>

fun js_abs :: "jsnum \<Rightarrow> jsnum" where
  "js_abs (Num a) = Num \<bar>a\<bar>"
| "js_abs PosInfinity = PosInfinity"
| "js_abs NegInfinity = PosInfinity"
| "js_abs NaN = NaN"

fun js_max :: "jsnum \<Rightarrow> jsnum \<Rightarrow> jsnum" where
  "js_max (Num a) (Num b) = Num (max a b)"
| "js_max NaN y = NaN"
| "js_max x NaN = NaN"
| "js_max PosInfinity y = PosInfinity"
| "js_max x PosInfinity = PosInfinity"
| "js_max NegInfinity y = y"
| "js_max x NegInfinity = x"

fun js_sqrt :: "jsnum \<Rightarrow> jsnum" where
  "js_sqrt (Num a) = (if a < 0 then NaN else Num (sqrt a))"
| "js_sqrt PosInfinity = PosInfinity"
| "js_sqrt NegInfinity = NaN"
| "js_sqrt NaN = NaN"

fun js_pow2 :: "jsnum \<Rightarrow> jsnum" where
  "js_pow2 (Num a) = Num (a * a)"
| "js_pow2 PosInfinity = PosInfinity"
| "js_pow2 NegInfinity = PosInfinity"
| "js_pow2 NaN = NaN"

text \<open>The comparisons \<open><\<close>, \<open>>\<close>, \<open><=\<close> and \<open>>=\<close>: false as soon as one side is \<open>NaN\<close>.\<close>

fun js_lt :: "jsnum \<Rightarrow> jsnum \<Rightarrow> bool" where
  "js_lt (Num a) (Num b) = (a < b)"
| "js_lt NaN y = False"
| "js_lt x NaN = False"
| "js_lt x NegInfinity = False"
| "js_lt NegInfinity y = True"
| "js_lt PosInfinity y = False"
| "js_lt x PosInfinity = True"

definition js_gt :: "jsnum \<Rightarrow> jsnum \<Rightarrow> bool" where
  "js_gt x y = js_lt y x"

definition js_le :: "jsnum \<Rightarrow> jsnum \<Rightarrow> bool" where
  "js_le x y = (x \<noteq> NaN \<and> y \<noteq> NaN \<and> \<not> js_lt y x)"

definition js_ge :: "jsnum \<Rightarrow> jsnum \<Rightarrow> bool" where
  "js_ge x y = js_le y x"

section \<open>The trading bot: signal, position size, stop-loss and take-profit\<close>

datatype direction = Buy | Sell

record TradingPair =
  name :: string
  baseMint :: string
  quoteMint :: string
  enabled :: bool

record RiskConfig =
  maxPositionPercentage :: jsnum
  maxLeverage :: jsnum
  targetDailyReturn :: jsnum
  stopLossPercentage :: jsnum
  dailyLossLimit :: jsnum

text \<open>The field initialiser of \<open>SolanaTradingBot.riskConfig\<close>.\<close>

definition riskConfig :: RiskConfig where
  "riskConfig =
     \<lparr> maxPositionPercentage = Num (1 / 100),
       maxLeverage = Num (33 / 10),
       targetDailyReturn = Num (1 / 100),
       stopLossPercentage = Num (5 / 1000),
       dailyLossLimit = Num (2 / 100) \<rparr>"

record Bands =
  upper :: "jsnum option"
  middle :: "jsnum option"
  lower :: "jsnum option"

text \<open>
  A value read from an array or stored in a field is a \<open>jsnum option\<close> where the program
  can leave it \<open>undefined\<close>: \<open>None\<close> is \<open>undefined\<close>.
\<close>

record Indicators =
  ema :: "nat \<rightharpoonup> jsnum option"
  rsi :: jsnum
  bb :: Bands
  atr :: jsnum

record MarketData =
  price :: jsnum
  timestamp :: nat
  volume24h :: jsnum
  liquidity :: jsnum
  priceChange24h :: jsnum
  volatility :: jsnum
  indicators :: Indicators

record TradingLimits =
  maxPositionSize :: jsnum
  maxDailyTrades :: jsnum
  maxDrawdown :: jsnum
  stopLoss :: jsnum
  takeProfit :: jsnum
  minLiquidity :: jsnum
  maxVolatility :: jsnum
  maxSpread :: jsnum

record Analysis =
  shouldTrade :: bool
  direction :: direction
  confidence :: jsnum

datatype order_type = MARKET | LIMIT

text \<open>The arguments \<open>executeOrder\<close> passes to the execution venue.\<close>

record OrderParams =
  orderPair :: string
  side :: direction
  orderSize :: jsnum
  orderType :: order_type
  orderPrice :: jsnum
  orderStopLoss :: jsnum
  orderTakeProfit :: jsnum

definition isMarketSuitableForTrading :: "TradingLimits \<Rightarrow> MarketData \<Rightarrow> bool" where
  "isMarketSuitableForTrading limits marketData =
     (js_ge (liquidity marketData) (minLiquidity limits) \<and>
      js_le (volatility marketData) (maxVolatility limits))"

definition canTrade :: bool where
  "canTrade = True"

definition analyzeTechnicalIndicators :: "MarketData \<Rightarrow> Analysis" where
  "analyzeTechnicalIndicators marketData =
     (let rsiOverSold = js_lt (rsi (indicators marketData)) (Num 30);
          rsiBuySignal = js_lt (rsi (indicators marketData)) (Num 40)
      in \<lparr> shouldTrade = rsiOverSold,
           direction = (if rsiBuySignal then Buy else Sell),
           confidence = Num (8 / 10) \<rparr>)"

definition calculateConservativePosition :: "RiskConfig \<Rightarrow> jsnum \<Rightarrow> jsnum \<Rightarrow> jsnum" where
  "calculateConservativePosition rc entryPrice conf =
     (let availableCapital = Num 1000;
          maxPosition = js_mul availableCapital (maxPositionPercentage rc)
      in js_mul maxPosition conf)"

definition calculateStopLoss :: "RiskConfig \<Rightarrow> jsnum \<Rightarrow> direction \<Rightarrow> jsnum" where
  "calculateStopLoss rc entryPrice dir =
     (if dir = Buy
      then js_mul entryPrice (js_sub (Num 1) (stopLossPercentage rc))
      else js_mul entryPrice (js_add (Num 1) (stopLossPercentage rc)))"

definition calculateTakeProfit :: "RiskConfig \<Rightarrow> jsnum \<Rightarrow> direction \<Rightarrow> jsnum" where
  "calculateTakeProfit rc entryPrice dir =
     (if dir = Buy
      then js_mul entryPrice (js_add (Num 1) (targetDailyReturn rc))
      else js_mul entryPrice (js_sub (Num 1) (targetDailyReturn rc)))"

text \<open>
  \<open>evaluateTradeOpportunities\<close> returns the order it hands to \<open>executeOrder\<close>, or \<open>None\<close>
  when it submits nothing. Its \<open>alerts\<close> argument is left out: the program never reads
  it. \<open>calculateConservativePosition\<close> keeps its price argument, which it does not read
  either.
\<close>

definition evaluateTradeOpportunities ::
  "TradingLimits \<Rightarrow> RiskConfig \<Rightarrow> TradingPair \<Rightarrow> MarketData \<Rightarrow> OrderParams option" where
  "evaluateTradeOpportunities limits rc tradingPair marketData =
     (if \<not> isMarketSuitableForTrading limits marketData then None
      else if \<not> canTrade then None
      else
        let analysis = analyzeTechnicalIndicators marketData;
            positionSize = calculateConservativePosition rc (price marketData) (confidence analysis)
        in if shouldTrade analysis \<and> js_gt positionSize (Num 0)
           then Some \<lparr> orderPair = name tradingPair,
                       side = direction analysis,
                       orderSize = positionSize,
                       orderType = LIMIT,
                       orderPrice = price marketData,
                       orderStopLoss = calculateStopLoss rc (price marketData) (direction analysis),
                       orderTakeProfit = calculateTakeProfit rc (price marketData) (direction analysis) \<rparr>
           else None)"

section \<open>Technical indicators\<close>

text \<open>
  Array reads. \<open>js_get xs i\<close> is \<open>xs[i]\<close> used as an operand: out of range the
  program reads \<open>undefined\<close>, which arithmetic turns into \<open>NaN\<close>. \<open>js_last xs\<close> is
  \<open>xs[xs.length - 1]\<close> returned as it is: \<open>None\<close> (\<open>undefined\<close>) on the empty array.
  \<open>js_slice_last n xs\<close> is \<open>xs.slice(-n)\<close>: the last \<open>n\<close> elements, and the whole
  array when \<open>n\<close> is \<open>0\<close>, since \<open>-0\<close> is the start index \<open>0\<close>.
  \<open>js_reduce_add xs\<close> is \<open>xs.reduce((a, b) => a + b)\<close>, which throws a \<open>TypeError\<close>
  on the empty array (\<open>None\<close> here).
\<close>

datatype error = TypeError

definition js_get :: "jsnum list \<Rightarrow> nat \<Rightarrow> jsnum" where
  "js_get xs i = (if i < length xs then xs ! i else NaN)"

definition js_last :: "jsnum list \<Rightarrow> jsnum option" where
  "js_last xs = (if xs = [] then None else Some (last xs))"

definition js_slice_last :: "nat \<Rightarrow> 'a list \<Rightarrow> 'a list" where
  "js_slice_last n xs = (if n = 0 then xs else drop (length xs - n) xs)"

fun js_reduce_add :: "jsnum list \<Rightarrow> jsnum option" where
  "js_reduce_add [] = None"
| "js_reduce_add (x # xs) = Some (foldl js_add x xs)"

subsection \<open>Exponential moving average\<close>

fun ema_loop :: "jsnum \<Rightarrow> jsnum \<Rightarrow> jsnum list \<Rightarrow> jsnum" where
  "ema_loop multiplier acc [] = acc"
| "ema_loop multiplier acc (p # ps) =
     ema_loop multiplier
       (js_add (js_mul p multiplier) (js_mul acc (js_sub (Num 1) multiplier))) ps"

definition calculateEMA :: "jsnum list \<Rightarrow> nat \<Rightarrow> jsnum option" where
  "calculateEMA prices period =
     (if length prices < period then js_last prices
      else
        let multiplier = js_div (Num 2) (Num (real period + 1))
        in case prices of
             [] \<Rightarrow> None
           | p0 # rest \<Rightarrow> Some (ema_loop multiplier p0 rest))"

subsection \<open>Relative strength index\<close>

definition rsi_sum_step :: "jsnum list \<Rightarrow> nat \<Rightarrow> jsnum \<times> jsnum \<Rightarrow> jsnum \<times> jsnum" where
  "rsi_sum_step prices i gl =
     (let gains = fst gl; losses = snd gl;
          difference = js_sub (js_get prices i) (js_get prices (i - 1))
      in if js_ge difference (Num 0)
         then (js_add gains difference, losses)
         else (gains, js_sub losses difference))"

definition rsi_smooth_step ::
  "jsnum list \<Rightarrow> nat \<Rightarrow> nat \<Rightarrow> jsnum \<times> jsnum \<Rightarrow> jsnum \<times> jsnum" where
  "rsi_smooth_step prices period i gl =
     (let avgGain = fst gl; avgLoss = snd gl;
          difference = js_sub (js_get prices i) (js_get prices (i - 1));
          periodMinus1 = Num (real period - 1)
      in if js_ge difference (Num 0)
         then (js_div (js_add (js_mul avgGain periodMinus1) difference) (Num (real period)),
               js_div (js_mul avgLoss periodMinus1) (Num (real period)))
         else (js_div (js_mul avgGain periodMinus1) (Num (real period)),
               js_div (js_sub (js_mul avgLoss periodMinus1) difference) (Num (real period))))"

definition calculateRSI :: "jsnum list \<Rightarrow> nat \<Rightarrow> jsnum" where
  "calculateRSI prices period =
     (if length prices < period + 1 then Num 50
      else
        let totals = fold (rsi_sum_step prices) [1 ..< period + 1] (Num 0, Num 0);
            avgGain = js_div (fst totals) (Num (real period));
            avgLoss = js_div (snd totals) (Num (real period));
            avgs = fold (rsi_smooth_step prices period) [period + 1 ..< length prices]
                     (avgGain, avgLoss);
            rs = js_div (fst avgs) (snd avgs)
        in js_sub (Num 100) (js_div (Num 100) (js_add (Num 1) rs)))"

subsection \<open>Bollinger bands and volatility\<close>

definition calculateBollingerBands :: "jsnum list \<Rightarrow> nat \<Rightarrow> jsnum \<Rightarrow> error + Bands" where
  "calculateBollingerBands prices period stdDev =
     (if length prices < period
      then let lastPrice = js_last prices
           in Inr \<lparr> upper = lastPrice, middle = lastPrice, lower = lastPrice \<rparr>
      else
        let relevantPrices = js_slice_last period prices
        in case js_reduce_add relevantPrices of
             None \<Rightarrow> Inl TypeError
           | Some priceSum \<Rightarrow>
               let sma = js_div priceSum (Num (real period));
                   squaredDifferences = map (\<lambda>p. js_pow2 (js_sub p sma)) relevantPrices
               in (case js_reduce_add squaredDifferences of
                     None \<Rightarrow> Inl TypeError
                   | Some squares \<Rightarrow>
                       let standardDeviation = js_sqrt (js_div squares (Num (real period)))
                       in Inr \<lparr> upper = Some (js_add sma (js_mul standardDeviation stdDev)),
                                middle = Some sma,
                                lower = Some (js_sub sma (js_mul standardDeviation stdDev)) \<rparr>))"

definition calculateVolatility :: "jsnum list \<Rightarrow> nat \<Rightarrow> error + jsnum" where
  "calculateVolatility prices period =
     (if length prices < period then Inr (Num 0)
      else
        let pricesToUse = js_slice_last period prices
        in case js_reduce_add pricesToUse of
             None \<Rightarrow> Inl TypeError
           | Some priceSum \<Rightarrow>
               let mean = js_div priceSum (Num (real period));
                   squaredDiffs = map (\<lambda>p. js_pow2 (js_sub p mean)) pricesToUse
               in (case js_reduce_add squaredDiffs of
                     None \<Rightarrow> Inl TypeError
                   | Some squares \<Rightarrow> Inr (js_sqrt (js_div squares (Num (real period))))))"

subsection \<open>Average true range\<close>

definition trueRange :: "jsnum list \<Rightarrow> jsnum list \<Rightarrow> jsnum list \<Rightarrow> nat \<Rightarrow> jsnum" where
  "trueRange highs lows closes i =
     (let high = js_get highs i
      in if i = 0 then js_sub high (js_get lows i)
         else
           let previousClose = js_get closes (i - 1)
           in js_max (js_max (js_sub high (js_get lows i))
                             (js_abs (js_sub high previousClose)))
                     (js_abs (js_sub (js_get lows i) previousClose)))"

fun atr_loop :: "nat \<Rightarrow> jsnum \<Rightarrow> jsnum list \<Rightarrow> jsnum" where
  "atr_loop period acc [] = acc"
| "atr_loop period acc (tr # trs) =
     atr_loop period
       (js_div (js_add (js_mul acc (Num (real period - 1))) tr) (Num (real period))) trs"

definition calculateATR :: "jsnum list \<Rightarrow> jsnum list \<Rightarrow> jsnum list \<Rightarrow> nat \<Rightarrow> jsnum" where
  "calculateATR highs lows closes period =
     (if length highs < 2 then Num 0
      else
        let trueRanges = map (trueRange highs lows closes) [0 ..< length highs]
        in atr_loop period (js_get trueRanges 0) (tl trueRanges))"

section \<open>The market monitor\<close>

text \<open>
  The monitoring configuration. The fields \<open>indicators\<close>, \<open>ema\<close>, \<open>rsi\<close>, \<open>volatility\<close>
  and \<open>period\<close> of the program are named \<open>indicatorConfig\<close>, \<open>emaPeriods\<close>, \<open>rsiConfig\<close>,
  \<open>volatilityConfig\<close> and \<open>rsiPeriod\<close> here, since a market snapshot has fields of the
  same names.
\<close>

record RsiConfig =
  rsiPeriod :: nat
  overbought :: jsnum
  oversold :: jsnum

record VolatilityConfig =
  bbPeriod :: nat
  bbStdDev :: jsnum
  atrPeriod :: nat

record TechnicalIndicators =
  emaPeriods :: "nat list"
  rsiConfig :: RsiConfig
  volatilityConfig :: VolatilityConfig

record AlertThresholds =
  priceChange :: jsnum
  volumeSpike :: jsnum
  lowLiquidity :: jsnum

record MonitoringConfig =
  timeframes :: "string list"
  indicatorConfig :: TechnicalIndicators
  updateInterval :: nat
  liquidityThreshold :: jsnum
  volumeThreshold :: jsnum
  alertThresholds :: AlertThresholds
  debug :: bool

record History =
  prices :: "jsnum list"
  highs :: "jsnum list"
  lows :: "jsnum list"
  volumes :: "jsnum list"

datatype alert_type = PRICE_CHANGE | VOLUME_SPIKE | LOW_LIQUIDITY

datatype severity = HIGH | MEDIUM

text \<open>An alert's message is kept as its template and the two values the template prints.\<close>

datatype alert_message =
  PriceChanged string jsnum
| UnusualVolume string jsnum
| LowLiquidityWarning string jsnum

record Alert =
  alertType :: alert_type
  severity :: severity
  message :: alert_message
  alertTimestamp :: nat

text \<open>
  The persistent store is the list of the \<open>set\<close> calls it has received, oldest first. A
  key is kept as its prefix and the values printed into it. The clock (\<open>Date.now()\<close>) is
  an argument: one reading per call.
\<close>

datatype store_key =
  MarketCurrentKey string
| MarketHistoryKey string nat
| AlertsKey string nat

datatype store_value = StoredMarketData MarketData | StoredAlerts "Alert list"

type_synonym store = "(store_key \<times> store_value) list"

record MonitorState =
  priceHistory :: "string \<rightharpoonup> History"
  trustDB :: store
  lastUpdate :: "string \<rightharpoonup> nat"

definition emptyHistory :: History where
  "emptyHistory = \<lparr> prices = [], highs = [], lows = [], volumes = [] \<rparr>"

text \<open>The first statement of \<open>initializePairMonitoring\<close>.\<close>

definition initializePairHistory :: "MonitorState \<Rightarrow> TradingPair \<Rightarrow> MonitorState" where
  "initializePairHistory st tradingPair =
     st\<lparr> priceHistory := (priceHistory st)(name tradingPair \<mapsto> emptyHistory) \<rparr>"

definition calculateIndicators ::
  "MonitoringConfig \<Rightarrow> MonitorState \<Rightarrow> string \<Rightarrow> MarketData \<Rightarrow> error + MarketData" where
  "calculateIndicators cfg st pairName marketData =
     (case priceHistory st pairName of
        None \<Rightarrow> Inr marketData
      | Some history \<Rightarrow>
          let ind = indicatorConfig cfg;
              emaValues = fold (\<lambda>period values.
                                  values(period \<mapsto> calculateEMA (prices history) period))
                            (emaPeriods ind) Map.empty;
              rsiValue = calculateRSI (prices history) (rsiPeriod (rsiConfig ind))
          in (case calculateBollingerBands (prices history)
                     (bbPeriod (volatilityConfig ind)) (bbStdDev (volatilityConfig ind)) of
                Inl e \<Rightarrow> Inl e
              | Inr bands \<Rightarrow>
                  let atrValue = calculateATR (highs history) (lows history) (prices history)
                                   (atrPeriod (volatilityConfig ind))
                  in (case calculateVolatility (prices history)
                             (bbPeriod (volatilityConfig ind)) of
                        Inl e \<Rightarrow> Inl e
                      | Inr vol \<Rightarrow>
                          Inr (marketData\<lparr> volatility := vol,
                                 indicators := \<lparr> ema = emaValues, rsi = rsiValue,
                                                 bb = bands, atr = atrValue \<rparr> \<rparr>))))"

definition storeMarketData :: "string \<Rightarrow> MarketData \<Rightarrow> store \<Rightarrow> store" where
  "storeMarketData pairName marketData db =
     db @ [(MarketCurrentKey pairName, StoredMarketData marketData),
           (MarketHistoryKey pairName (timestamp marketData), StoredMarketData marketData)]"

text \<open>The local array \<open>alerts\<close> of \<open>checkAlertConditions\<close> after its three checks.\<close>

definition collectAlerts :: "MonitoringConfig \<Rightarrow> string \<Rightarrow> MarketData \<Rightarrow> nat \<Rightarrow> Alert list" where
  "collectAlerts cfg pairName marketData now =
     (let alerts0 = [];
          alerts1 =
            (if js_gt (js_abs (priceChange24h marketData)) (priceChange (alertThresholds cfg))
             then alerts0 @ [\<lparr> alertType = PRICE_CHANGE, severity = HIGH,
                               message = PriceChanged pairName (priceChange24h marketData),
                               alertTimestamp = now \<rparr>]
             else alerts0);
          alerts2 =
            (if js_gt (volume24h marketData)
                  (js_mul (volumeThreshold cfg) (volumeSpike (alertThresholds cfg)))
             then alerts1 @ [\<lparr> alertType = VOLUME_SPIKE, severity = MEDIUM,
                               message = UnusualVolume pairName (volume24h marketData),
                               alertTimestamp = now \<rparr>]
             else alerts1);
          alerts3 =
            (if js_lt (liquidity marketData) (lowLiquidity (alertThresholds cfg))
             then alerts2 @ [\<lparr> alertType = LOW_LIQUIDITY, severity = HIGH,
                               message = LowLiquidityWarning pairName (liquidity marketData),
                               alertTimestamp = now \<rparr>]
             else alerts2)
      in alerts3)"

definition checkAlertConditions ::
  "MonitoringConfig \<Rightarrow> string \<Rightarrow> MarketData \<Rightarrow> nat \<Rightarrow> store \<Rightarrow> store" where
  "checkAlertConditions cfg pairName marketData now db =
     (let alerts = collectAlerts cfg pairName marketData now
      in if length alerts > 0
         then db @ [(AlertsKey pairName now, StoredAlerts alerts)]
         else db)"

text \<open>\<open>Math.max(...ema, bbPeriod * 2)\<close>.\<close>

definition maxPeriod :: "MonitoringConfig \<Rightarrow> nat" where
  "maxPeriod cfg =
     foldr max (emaPeriods (indicatorConfig cfg))
       (bbPeriod (volatilityConfig (indicatorConfig cfg)) * 2)"

text \<open>
  The two halves of \<open>updateMarketData\<close>'s work on the history: its four \<open>push\<close> calls,
  and the block that manages the history size.
\<close>

definition pushSample :: "History \<Rightarrow> MarketData \<Rightarrow> History" where
  "pushSample history marketData =
     history\<lparr> prices := prices history @ [price marketData],
              volumes := volumes history @ [volume24h marketData],
              highs := highs history @ [price marketData],
              lows := lows history @ [price marketData] \<rparr>"

definition truncateHistory :: "nat \<Rightarrow> History \<Rightarrow> History" where
  "truncateHistory n history =
     (if length (prices history) > n
      then history\<lparr> prices := js_slice_last n (prices history),
                    highs := js_slice_last n (highs history),
                    lows := js_slice_last n (lows history),
                    volumes := js_slice_last n (volumes history) \<rparr>
      else history)"

text \<open>
  \<open>updateMarketData\<close> returns the state it leaves: \<open>Inr\<close> when the call completes, \<open>Inl\<close>
  with the exception when an indicator throws (the samples are then already pushed).
\<close>

definition updateMarketData ::
  "MonitoringConfig \<Rightarrow> TradingPair \<Rightarrow> MarketData \<Rightarrow> nat \<Rightarrow> MonitorState
     \<Rightarrow> (error \<times> MonitorState) + MonitorState" where
  "updateMarketData cfg tradingPair marketData now st =
     (case priceHistory st (name tradingPair) of
        None \<Rightarrow> Inr st
      | Some history \<Rightarrow>
          let pushed = pushSample history marketData;
              st1 = st\<lparr> priceHistory := (priceHistory st)(name tradingPair \<mapsto> pushed) \<rparr>
          in (case calculateIndicators cfg st1 (name tradingPair) marketData of
                Inl e \<Rightarrow> Inl (e, st1)
              | Inr enrichedData \<Rightarrow>
                  let db1 = storeMarketData (name tradingPair) enrichedData (trustDB st1);
                      db2 = checkAlertConditions cfg (name tradingPair) enrichedData now db1
                  in Inr (st1\<lparr> priceHistory :=
                                  (priceHistory st1)(name tradingPair \<mapsto>
                                     truncateHistory (maxPeriod cfg) pushed),
                                trustDB := db2,
                                lastUpdate := (lastUpdate st1)(name tradingPair \<mapsto> now) \<rparr>)))"

text \<open>
  The states of a monitor: it starts with no history, \<open>initializePairMonitoring\<close> gives a
  pair an empty history, and every completed \<open>updateMarketData\<close> call leads to the next.
\<close>

inductive reachable :: "MonitoringConfig \<Rightarrow> MonitorState \<Rightarrow> bool" for cfg where
  fresh: "priceHistory st = Map.empty \<Longrightarrow> reachable cfg st"
| registered: "reachable cfg st \<Longrightarrow> reachable cfg (initializePairHistory st tradingPair)"
| updated: "reachable cfg st \<Longrightarrow> updateMarketData cfg tradingPair marketData now st = Inr st'
     \<Longrightarrow> reachable cfg st'"

text \<open>The history a pair has after a call, when the call completed.\<close>

definition historyAfter ::
  "(error \<times> MonitorState) + MonitorState \<Rightarrow> string \<Rightarrow> History option" where
  "historyAfter outcome pairName =
     (case outcome of Inl failed \<Rightarrow> None | Inr st \<Rightarrow> priceHistory st pairName)"

text \<open>A monitor as its constructor leaves it, with an empty store.\<close>

definition newMonitorState :: MonitorState where
  "newMonitorState = \<lparr> priceHistory = Map.empty, trustDB = [], lastUpdate = Map.empty \<rparr>"

subsection \<open>The values of the repository's tests\<close>

definition testConfig :: MonitoringConfig where
  "testConfig =
     \<lparr> timeframes = [''1m'', ''5m'', ''15m''],
       indicatorConfig =
         \<lparr> emaPeriods = [9, 21],
           rsiConfig = \<lparr> rsiPeriod = 14, overbought = Num 70, oversold = Num 30 \<rparr>,
           volatilityConfig = \<lparr> bbPeriod = 20, bbStdDev = Num 2, atrPeriod = 14 \<rparr> \<rparr>,
       updateInterval = 1000,
       liquidityThreshold = Num 1000,
       volumeThreshold = Num 10000,
       alertThresholds =
         \<lparr> priceChange = Num 5, volumeSpike = Num 200, lowLiquidity = Num 500 \<rparr>,
       debug = False \<rparr>"

definition testPair :: TradingPair where
  "testPair =
     \<lparr> name = ''SOL/USDC'',
       baseMint = ''So11111111111111111111111111111111111111112'',
       quoteMint = ''EPjFWdd5AufqSSqeM2qN1xzybapC8G4wEGGkZwyTDt1v'',
       enabled = True \<rparr>"

definition testData :: MarketData where
  "testData =
     \<lparr> price = Num 100,
       timestamp = 0,
       volume24h = Num 1000000,
       liquidity = Num 5000000,
       priceChange24h = Num 10,
       volatility = Num 0,
       indicators =
         \<lparr> ema = Map.empty, rsi = Num 0,
           bb = \<lparr> upper = Some (Num 0), middle = Some (Num 0), lower = Some (Num 0) \<rparr>,
           atr = Num 0 \<rparr> \<rparr>"

text \<open>The test configuration with no EMA period and a Bollinger period of \<open>0\<close>.\<close>

definition zeroPeriodConfig :: MonitoringConfig where
  "zeroPeriodConfig =
     testConfig\<lparr> indicatorConfig :=
       \<lparr> emaPeriods = [],
         rsiConfig = \<lparr> rsiPeriod = 14, overbought = Num 70, oversold = Num 30 \<rparr>,
         volatilityConfig = \<lparr> bbPeriod = 0, bbStdDev = Num 2, atrPeriod = 14 \<rparr> \<rparr> \<rparr>"

section \<open>Notions of the specification\<close>

text \<open>
  The arithmetic mean and the population variance of a list of reals, as the
  specification words them, to compare the Bollinger bands with.
\<close>

definition arithmetic_mean :: "real list \<Rightarrow> real" where
  "arithmetic_mean xs = sum_list xs / real (length xs)"

definition population_variance :: "real list \<Rightarrow> real" where
  "population_variance xs =
     sum_list (map (\<lambda>x. (x - arithmetic_mean xs) * (x - arithmetic_mean xs)) xs)
       / real (length xs)"

text \<open>A finite number that is at least \<open>0\<close>, and one in the interval from 0 to 100.\<close>

definition nonneg_num :: "jsnum \<Rightarrow> bool" where
  "nonneg_num x = (case x of Num r \<Rightarrow> 0 \<le> r | _ \<Rightarrow> False)"

definition in_0_100 :: "jsnum \<Rightarrow> bool" where
  "in_0_100 x = (case x of Num r \<Rightarrow> 0 \<le> r \<and> r \<le> 100 | _ \<Rightarrow> False)"

definition nonneg_pair :: "jsnum \<times> jsnum \<Rightarrow> bool" where
  "nonneg_pair gl = (nonneg_num (fst gl) \<and> nonneg_num (snd gl))"

text \<open>The four sequences of a history are parallel and within the bound \<open>n\<close>.\<close>

definition history_within :: "nat \<Rightarrow> History \<Rightarrow> bool" where
  "history_within n history =
     (length (prices history) \<le> n \<and>
      length (highs history) = length (prices history) \<and>
      length (lows history) = length (prices history) \<and>
      length (volumes history) = length (prices history))"

section \<open>Arithmetic on finite numbers\<close>

lemma js_sub_Num [simp]: "js_sub (Num a) (Num b) = Num (a - b)"
  by (simp add: js_sub_def)

lemma js_ge_Num [simp]: "js_ge (Num a) (Num b) = (b \<le> a)"
  by (auto simp: js_ge_def js_le_def)

lemma js_le_Num [simp]: "js_le (Num a) (Num b) = (a \<le> b)"
  by (auto simp: js_le_def)

lemma js_gt_Num [simp]: "js_gt (Num a) (Num b) = (b < a)"
  by (simp add: js_gt_def)

lemma js_get_map_Num [simp]: "i < length xs \<Longrightarrow> js_get (map Num xs) i = Num (xs ! i)"
  by (simp add: js_get_def)

lemma js_lt_30_40: "js_lt x (Num 30) \<Longrightarrow> js_lt x (Num 40)"
  by (cases x) simp_all

lemma nonneg_num_Num [simp]: "nonneg_num (Num r) = (0 \<le> r)"
  by (simp add: nonneg_num_def)

lemma nonneg_numE: "nonneg_num x \<Longrightarrow> (\<And>r. x = Num r \<Longrightarrow> 0 \<le> r \<Longrightarrow> P) \<Longrightarrow> P"
  by (cases x) (simp_all add: nonneg_num_def)

lemma foldl_js_add_Num: "foldl js_add (Num a) (map Num xs) = Num (a + sum_list xs)"
  by (induction xs arbitrary: a) (simp_all add: add.assoc)

lemma js_reduce_add_Num: "xs \<noteq> [] \<Longrightarrow> js_reduce_add (map Num xs) = Some (Num (sum_list xs))"
  by (cases xs) (simp_all add: foldl_js_add_Num)

lemma js_reduce_add_nonempty: "xs \<noteq> [] \<Longrightarrow> \<exists>v. js_reduce_add xs = Some v"
  by (cases xs) simp_all

lemma js_slice_last_map: "js_slice_last n (map f xs) = map f (js_slice_last n xs)"
  by (simp add: js_slice_last_def drop_map)

lemma length_js_slice_last: "0 < n \<Longrightarrow> length (js_slice_last n xs) = min n (length xs)"
  by (simp add: js_slice_last_def)

lemma js_slice_last_nonempty:
  "xs \<noteq> [] \<Longrightarrow> n \<le> length xs \<Longrightarrow> js_slice_last n xs \<noteq> []"
  by (cases "n = 0") (auto simp: js_slice_last_def)

section \<open>Position size, stop-loss and take-profit\<close>

text \<open>
  Claim C1, as amended. With a finite cap \<open>m\<close> and a finite confidence \<open>c\<close>, the
  position size is \<open>1000 * m * c\<close> whatever the entry price (the available capital is the
  constant \<open>1000\<close>); it is linear in the confidence; and it stays within
  \<open>availableCapital * maxPositionPercentage\<close> when the cap is not negative and the
  confidence is at most \<open>1\<close>.
\<close>

theorem position_size_formula:
  assumes "maxPositionPercentage rc = Num m"
  shows "calculateConservativePosition rc entryPrice (Num c) = Num (1000 * m * c) \<and>
         calculateConservativePosition rc entryPrice (Num (k * c)) =
           js_mul (Num k) (calculateConservativePosition rc entryPrice (Num c)) \<and>
         (0 \<le> m \<and> c \<le> 1 \<longrightarrow>
           js_le (calculateConservativePosition rc entryPrice (Num c))
                 (js_mul (Num 1000) (maxPositionPercentage rc)))"
proof -
  have amount: "calculateConservativePosition rc entryPrice (Num x) = Num (1000 * m * x)" for x
    using assms by (simp add: calculateConservativePosition_def)
  have bound: "m * c \<le> m" if "0 \<le> m" "c \<le> 1"
    using that mult_left_mono[of c 1 m] by simp
  have cap: "js_mul (Num 1000) (maxPositionPercentage rc) = Num (1000 * m)"
    using assms by simp
  show ?thesis
    using bound by (auto simp: amount cap)
qed

theorem position_size_formula_witness:
  "calculateConservativePosition riskConfig (Num 100) (Num (8 / 10)) = Num 8 \<and>
   js_le (calculateConservativePosition riskConfig (Num 100) (Num (8 / 10))) (Num 10)"
proof -
  have m: "maxPositionPercentage riskConfig = Num (1 / 100)"
    by (simp add: riskConfig_def)
  show ?thesis
    using position_size_formula [OF m, of "Num 100" "8 / 10" 1] by (simp add: m)
qed


text \<open>
  Claim C2. For an entry price \<open>p > 0\<close> and percentages strictly between \<open>0\<close> and \<open>1\<close>:
  a buy has stop-loss \<open>p * (1 - s)\<close> and take-profit \<open>p * (1 + t)\<close>, so
  stop-loss < price < take-profit; a sell has the signs inverted, so
  take-profit < price < stop-loss.
\<close>

theorem stop_loss_take_profit_bracket:
  assumes "0 < p"
    and "stopLossPercentage rc = Num s" and "0 < s" and "s < 1"
    and "targetDailyReturn rc = Num t" and "0 < t" and "t < 1"
  shows "calculateStopLoss rc (Num p) Buy = Num (p * (1 - s)) \<and>
         calculateTakeProfit rc (Num p) Buy = Num (p * (1 + t)) \<and>
         js_lt (calculateStopLoss rc (Num p) Buy) (Num p) \<and>
         js_lt (Num p) (calculateTakeProfit rc (Num p) Buy) \<and>
         calculateStopLoss rc (Num p) Sell = Num (p * (1 + s)) \<and>
         calculateTakeProfit rc (Num p) Sell = Num (p * (1 - t)) \<and>
         js_lt (calculateTakeProfit rc (Num p) Sell) (Num p) \<and>
         js_lt (Num p) (calculateStopLoss rc (Num p) Sell)"
proof -
  have down: "p * (1 - x) < p" if "0 < x" for x
    using that assms(1) by (simp add: algebra_simps)
  have up: "p < p * (1 + x)" if "0 < x" for x
    using that assms(1) by (simp add: algebra_simps)
  show ?thesis
    using assms down[of s] down[of t] up[of s] up[of t]
    by (simp add: calculateStopLoss_def calculateTakeProfit_def)
qed

theorem stop_loss_take_profit_bracket_witness:
  "calculateStopLoss riskConfig (Num 100) Buy = Num (995 / 10) \<and>
   calculateTakeProfit riskConfig (Num 100) Buy = Num 101 \<and>
   calculateStopLoss riskConfig (Num 100) Sell = Num (1005 / 10) \<and>
   calculateTakeProfit riskConfig (Num 100) Sell = Num 99"
  using stop_loss_take_profit_bracket [of 100 riskConfig "5 / 1000" "1 / 100"]
  by (simp add: riskConfig_def)

section \<open>The trading signal\<close>

text \<open>
  Claim C9. Whenever \<open>analyzeTechnicalIndicators\<close> says to trade, its direction is a buy
  (trading needs an RSI below 30, and the direction is a buy below 40); so every order
  \<open>evaluateTradeOpportunities\<close> submits is a buy, and none is a sell.
\<close>

theorem trades_are_buys:
  "(shouldTrade (analyzeTechnicalIndicators marketData) \<longrightarrow>
      direction (analyzeTechnicalIndicators marketData) = Buy) \<and>
   (evaluateTradeOpportunities limits rc tradingPair marketData = Some order \<longrightarrow>
      side order = Buy)"
proof -
  have a: "shouldTrade (analyzeTechnicalIndicators marketData) \<Longrightarrow>
      direction (analyzeTechnicalIndicators marketData) = Buy"
    by (simp add: analyzeTechnicalIndicators_def Let_def js_lt_30_40)
  have b: "evaluateTradeOpportunities limits rc tradingPair marketData = Some order \<Longrightarrow>
      side order = Buy"
    using a by (auto simp: evaluateTradeOpportunities_def Let_def split: if_splits)
  show ?thesis using a b by blast
qed

theorem trades_are_buys_witness:
  "shouldTrade (analyzeTechnicalIndicators
     (testData\<lparr> indicators := (indicators testData)\<lparr> rsi := Num 25 \<rparr> \<rparr>)) \<and>
   evaluateTradeOpportunities
     \<lparr> maxPositionSize = Num 1000, maxDailyTrades = Num 10, maxDrawdown = Num (1 / 10),
       stopLoss = Num (1 / 100), takeProfit = Num (2 / 100), minLiquidity = Num 1000,
       maxVolatility = Num 1, maxSpread = Num 1 \<rparr>
     riskConfig testPair
     (testData\<lparr> indicators := (indicators testData)\<lparr> rsi := Num 25 \<rparr> \<rparr>) =
   Some \<lparr> orderPair = ''SOL/USDC'', side = Buy, orderSize = Num 8, orderType = LIMIT,
          orderPrice = Num 100, orderStopLoss = Num (995 / 10), orderTakeProfit = Num 101 \<rparr>"
  using trades_are_buys
    [of "testData\<lparr> indicators := (indicators testData)\<lparr> rsi := Num 25 \<rparr> \<rparr>"
        "\<lparr> maxPositionSize = Num 1000, maxDailyTrades = Num 10, maxDrawdown = Num (1 / 10),
           stopLoss = Num (1 / 100), takeProfit = Num (2 / 100), minLiquidity = Num 1000,
           maxVolatility = Num 1, maxSpread = Num 1 \<rparr>"
        riskConfig testPair
        "\<lparr> orderPair = ''SOL/USDC'', side = Buy, orderSize = Num 8, orderType = LIMIT,
           orderPrice = Num 100, orderStopLoss = Num (995 / 10), orderTakeProfit = Num 101 \<rparr>"]
  by (simp add: analyzeTechnicalIndicators_def evaluateTradeOpportunities_def
      isMarketSuitableForTrading_def canTrade_def calculateConservativePosition_def
      calculateStopLoss_def calculateTakeProfit_def riskConfig_def testData_def testPair_def
      Let_def)


section \<open>Exponential moving average\<close>

lemma ema_loop_Num:
  "ema_loop (Num k) (Num a) (map Num ps) =
     Num (foldl (\<lambda>acc p. p * k + acc * (1 - k)) a ps)"
  by (induction ps arbitrary: a) simp_all

lemma calculateEMA_Num:
  assumes "period \<le> length (p0 # ps)"
  shows "calculateEMA (map Num (p0 # ps)) period =
     Some (Num (foldl (\<lambda>acc p. p * (2 / (real period + 1))
                                + acc * (1 - 2 / (real period + 1))) p0 ps))"
proof -
  have "real period + 1 \<noteq> 0"
    by (metis add.commute of_nat_Suc of_nat_neq_0)
  then have "js_div (Num 2) (Num (real period + 1)) = Num (2 / (real period + 1))"
    by simp
  then show ?thesis
    using assms by (simp add: calculateEMA_def ema_loop_Num)
qed

text \<open>
  Claim C5, as amended. On the prices 1 to 10 with period 5, \<open>calculateEMA\<close> returns
  158488/19683, which is 8.05 to within 0.05 (and not 8.54). It is the value of the
  full-history recurrence: the accumulator starts at the first price and
  \<open>ema = price * k + ema * (1 - k)\<close> with \<open>k = 2 / (period + 1)\<close> runs over all the other
  prices, whenever the list has at least \<open>period\<close> prices.
\<close>

theorem ema_one_to_ten:
  "calculateEMA (map Num [1, 2, 3, 4, 5, 6, 7, 8, 9, 10]) 5 = Some (Num (158488 / 19683)) \<and>
   \<bar>158488 / 19683 - 805 / 100\<bar> < (5 / 100 :: real) \<and>
   (period \<le> length (p0 # ps) \<longrightarrow>
      calculateEMA (map Num (p0 # ps)) period =
        Some (Num (foldl (\<lambda>acc p. p * (2 / (real period + 1))
                                   + acc * (1 - 2 / (real period + 1))) p0 ps)))"
proof -
  have "calculateEMA (map Num [1, 2, 3, 4, 5, 6, 7, 8, 9, 10]) 5 = Some (Num (158488 / 19683))"
    by (simp add: calculateEMA_def)
  moreover have "\<bar>158488 / 19683 - 805 / 100\<bar> < (5 / 100 :: real)"
    by simp
  ultimately show ?thesis
    using calculateEMA_Num by blast
qed

theorem ema_one_to_ten_witness:
  "calculateEMA (map Num [1, 2, 3]) 2 = Some (Num (23 / 9))"
  using ema_one_to_ten [of 2 1 "[2, 3]"] by simp

text \<open>
  The value the claim gives, 8.54, is not within a tenth of what the program returns.
\<close>

theorem ema_one_to_ten_not_854:
  "calculateEMA (map Num [1, 2, 3, 4, 5, 6, 7, 8, 9, 10]) 5 = Some (Num (158488 / 19683)) \<and>
   \<not> \<bar>158488 / 19683 - 854 / 100\<bar> \<le> (1 / 10 :: real)"
  by (simp add: calculateEMA_def)

text \<open>
  Claim C10. On the empty list both fallbacks read out of bounds: \<open>calculateEMA\<close> returns
  \<open>undefined\<close> (\<open>None\<close>) for every period, and \<open>calculateBollingerBands\<close> returns three
  \<open>undefined\<close> bands, or throws when the period is \<open>0\<close>. On a non-empty list shorter than
  the period, both return exactly the last element.
\<close>

theorem fallback_last_or_undefined:
  "calculateEMA [] period = None \<and>
   calculateBollingerBands [] period stdDev =
     (if period = 0 then Inl TypeError
      else Inr \<lparr> upper = None, middle = None, lower = None \<rparr>) \<and>
   (xs \<noteq> [] \<and> length xs < period \<longrightarrow>
      calculateEMA xs period = Some (last xs) \<and>
      calculateBollingerBands xs period stdDev =
        Inr \<lparr> upper = Some (last xs), middle = Some (last xs), lower = Some (last xs) \<rparr>)"
  by (simp add: calculateEMA_def calculateBollingerBands_def js_last_def js_slice_last_def
      Let_def)

theorem fallback_last_or_undefined_witness:
  "calculateEMA [Num 1, Num 2] 5 = Some (Num 2) \<and>
   calculateBollingerBands [Num 1, Num 2] 20 (Num 2) =
     Inr \<lparr> upper = Some (Num 2), middle = Some (Num 2), lower = Some (Num 2) \<rparr> \<and>
   calculateEMA [] 5 = None"
  using fallback_last_or_undefined [of 5 "Num 2" "[Num 1, Num 2]"]
    fallback_last_or_undefined [of 20 "Num 2" "[Num 1, Num 2]"]
  by simp


section \<open>Bollinger bands\<close>

lemma sum_list_squares_nonneg:
  "0 \<le> sum_list (map (\<lambda>x. (x - m) * (x - m)) (xs :: real list))"
  by (induction xs) simp_all

lemma population_variance_nonneg: "0 \<le> population_variance xs"
  unfolding population_variance_def
  by (intro divide_nonneg_nonneg sum_list_squares_nonneg) simp

lemma bollinger_finite:
  assumes "0 < period" and "period \<le> length ps"
  shows "calculateBollingerBands (map Num ps) period (Num k) =
     Inr \<lparr> upper = Some (Num (arithmetic_mean (js_slice_last period ps)
                          + sqrt (population_variance (js_slice_last period ps)) * k)),
           middle = Some (Num (arithmetic_mean (js_slice_last period ps))),
           lower = Some (Num (arithmetic_mean (js_slice_last period ps)
                          - sqrt (population_variance (js_slice_last period ps)) * k)) \<rparr>"
proof -
  define w where "w = js_slice_last period ps"
  have len: "length w = period"
    using assms by (simp add: w_def length_js_slice_last)
  then have ne: "w \<noteq> []"
    using assms(1) by auto
  have p0: "real period \<noteq> 0"
    using assms(1) by simp
  have priceSum: "js_reduce_add (map Num w) = Some (Num (sum_list w))"
    using ne by (rule js_reduce_add_Num)
  have sq: "map (\<lambda>p. js_pow2 (js_sub p (Num m))) (map Num w) =
            map Num (map (\<lambda>x. (x - m) * (x - m)) w)" for m
    by simp
  have squares: "js_reduce_add (map (\<lambda>p. js_pow2 (js_sub p (Num m))) (map Num w)) =
                 Some (Num (sum_list (map (\<lambda>x. (x - m) * (x - m)) w)))" for m
    unfolding sq using ne by (intro js_reduce_add_Num) simp
  have var: "\<not> population_variance w < 0"
    using population_variance_nonneg[of w] by simp
  have "calculateBollingerBands (map Num ps) period (Num k) =
     Inr \<lparr> upper = Some (Num (arithmetic_mean w + sqrt (population_variance w) * k)),
           middle = Some (Num (arithmetic_mean w)),
           lower = Some (Num (arithmetic_mean w - sqrt (population_variance w) * k)) \<rparr>"
    using assms(2) p0 var
    unfolding calculateBollingerBands_def js_slice_last_map w_def[symmetric]
    by (simp add: priceSum squares Let_def len arithmetic_mean_def population_variance_def
        del: map_map)
  then show ?thesis by (simp add: w_def)
qed

text \<open>
  Claim C7, as amended. For a period of at least \<open>1\<close> and at least \<open>period\<close> finite
  prices, the middle band is the arithmetic mean of the last \<open>period\<close> prices and the
  upper and lower bands lie \<open>k\<close> population standard deviations (the sum of squared
  deviations divided by \<open>period\<close>) above and below it, \<open>k\<close> being the multiplier; when
  that variance and the multiplier are both positive, lower < middle < upper. With fewer
  than \<open>period\<close> prices all three bands are the last price (\<open>undefined\<close> on the empty list).
\<close>

theorem bollinger_bands_population:
  "(0 < period \<and> period \<le> length ps \<longrightarrow>
      js_slice_last period ps = drop (length ps - period) ps \<and>
      calculateBollingerBands (map Num ps) period (Num k) =
        Inr \<lparr> upper = Some (Num (arithmetic_mean (js_slice_last period ps)
                             + sqrt (population_variance (js_slice_last period ps)) * k)),
              middle = Some (Num (arithmetic_mean (js_slice_last period ps))),
              lower = Some (Num (arithmetic_mean (js_slice_last period ps)
                             - sqrt (population_variance (js_slice_last period ps)) * k)) \<rparr> \<and>
      (0 < population_variance (js_slice_last period ps) \<and> 0 < k \<longrightarrow>
         arithmetic_mean (js_slice_last period ps)
           - sqrt (population_variance (js_slice_last period ps)) * k
           < arithmetic_mean (js_slice_last period ps) \<and>
         arithmetic_mean (js_slice_last period ps)
           < arithmetic_mean (js_slice_last period ps)
             + sqrt (population_variance (js_slice_last period ps)) * k)) \<and>
   (length xs < period \<longrightarrow>
      calculateBollingerBands xs period stdDev =
        Inr \<lparr> upper = js_last xs, middle = js_last xs, lower = js_last xs \<rparr> \<and>
      (xs \<noteq> [] \<longrightarrow> js_last xs = Some (last xs)))"
proof -
  have spread: "0 < sqrt v * k" if "0 < v" "0 < k" for v k :: real
    using that by simp
  have short: "length xs < period \<Longrightarrow>
      calculateBollingerBands xs period stdDev =
        Inr \<lparr> upper = js_last xs, middle = js_last xs, lower = js_last xs \<rparr>"
    by (simp add: calculateBollingerBands_def Let_def)
  have slice: "0 < period \<Longrightarrow> js_slice_last period ps = drop (length ps - period) ps"
    by (simp add: js_slice_last_def)
  show ?thesis
    using bollinger_finite[of period ps k] short slice
      spread[of "population_variance (js_slice_last period ps)" k]
    by (auto simp: js_last_def)
qed

theorem bollinger_bands_population_witness:
  "calculateBollingerBands (map Num [1, 3]) 2 (Num 2) =
     Inr \<lparr> upper = Some (Num 4), middle = Some (Num 2), lower = Some (Num 0) \<rparr> \<and>
   population_variance [1, 3] = 1"
  using bollinger_bands_population [of 2 "[1, 3]" 2 "[]" "Num 2"]
  by (simp add: arithmetic_mean_def population_variance_def js_slice_last_def)

text \<open>
  The claim as written fails for a multiplier of \<open>0\<close>: the variance of \<open>[1, 3]\<close> is \<open>1\<close>,
  and the three bands are all \<open>2\<close>.
\<close>

theorem bollinger_zero_multiplier:
  "population_variance [1, 3] = 1 \<and>
   calculateBollingerBands (map Num [1, 3]) 2 (Num 0) =
     Inr \<lparr> upper = Some (Num 2), middle = Some (Num 2), lower = Some (Num 2) \<rparr>"
  by (simp add: calculateBollingerBands_def arithmetic_mean_def population_variance_def
      js_slice_last_def Let_def)


section \<open>Relative strength index\<close>

lemma rsi_sum_step_nonneg:
  assumes "0 < i" and "i < length ps" and "nonneg_pair gl"
  shows "nonneg_pair (rsi_sum_step (map Num ps) i gl)"
proof -
  obtain g l where gl: "gl = (Num g, Num l)" "0 \<le> g" "0 \<le> l"
    using assms(3) unfolding nonneg_pair_def
    by (cases gl) (auto elim!: nonneg_numE)
  show ?thesis
    using assms(1,2) gl(2,3)
    by (simp add: rsi_sum_step_def gl(1) Let_def nonneg_pair_def)
qed

lemma rsi_smooth_step_nonneg:
  assumes "0 < period" and "0 < i" and "i < length ps" and "nonneg_pair gl"
  shows "nonneg_pair (rsi_smooth_step (map Num ps) period i gl)"
proof -
  obtain g l where gl: "gl = (Num g, Num l)" "0 \<le> g" "0 \<le> l"
    using assms(4) unfolding nonneg_pair_def
    by (cases gl) (auto elim!: nonneg_numE)
  have q: "0 \<le> real period - 1"
    using assms(1) by simp
  have g': "0 \<le> g * (real period - 1)" and l': "0 \<le> l * (real period - 1)"
    using gl(2,3) q by simp_all
  show ?thesis
    using assms(1,2,3) g' l'
    by (simp add: rsi_smooth_step_def gl(1) Let_def nonneg_pair_def)
qed

lemma fold_nonneg_pair:
  assumes "\<And>i gl. i \<in> set ixs \<Longrightarrow> nonneg_pair gl \<Longrightarrow> nonneg_pair (f i gl)"
  shows "nonneg_pair gl \<Longrightarrow> nonneg_pair (fold f ixs gl)"
  using assms by (induction ixs arbitrary: gl) simp_all

text \<open>
  The last two lines of \<open>calculateRSI\<close> on finite averages that are not negative: the
  result is in the interval from 0 to 100, except that it is \<open>NaN\<close> when both averages
  are \<open>0\<close>. An average loss of \<open>0\<close> with a positive average gain gives \<open>100\<close>, through
  \<open>Infinity\<close>.
\<close>

lemma rsi_final:
  assumes "0 \<le> g" and "0 \<le> l"
  shows "js_sub (Num 100) (js_div (Num 100) (js_add (Num 1) (js_div (Num g) (Num l)))) =
           (if g = 0 \<and> l = 0 then NaN
            else if l = 0 then Num 100
            else Num (100 - 100 / (1 + g / l))) \<and>
         (l \<noteq> 0 \<longrightarrow> 0 \<le> 100 - 100 / (1 + g / l) \<and> 100 - 100 / (1 + g / l) \<le> 100)"
proof (cases "l = 0")
  case True
  then show ?thesis
    using assms(1) by (cases "g = 0") (simp_all add: js_infinity_def js_sub_def)
next
  case False
  then have l: "0 < l" using assms(2) by simp
  have rs: "0 \<le> g / l" using assms(1) l by simp
  then have d: "1 + g / l \<noteq> 0" by linarith
  have "0 < 100 / (1 + g / l)" using rs by simp
  moreover have "100 / (1 + g / l) \<le> 100"
    using rs by (simp add: divide_le_eq)
  ultimately show ?thesis
    using False d by simp
qed

lemma calculateRSI_range:
  assumes "0 < period"
  shows "calculateRSI (map Num ps) period = NaN \<or> in_0_100 (calculateRSI (map Num ps) period)"
proof (cases "length ps < period + 1")
  case True
  then show ?thesis by (simp add: calculateRSI_def in_0_100_def)
next
  case False
  let ?prices = "map Num ps"
  let ?totals = "fold (rsi_sum_step ?prices) [1 ..< period + 1] (Num 0, Num 0)"
  have "nonneg_pair ?totals"
    using False by (intro fold_nonneg_pair rsi_sum_step_nonneg) (auto simp: nonneg_pair_def)
  then obtain g l where totals: "?totals = (Num g, Num l)" "0 \<le> g" "0 \<le> l"
    unfolding nonneg_pair_def by (cases ?totals) (auto elim!: nonneg_numE)
  let ?avgs = "fold (rsi_smooth_step ?prices period) [period + 1 ..< length ?prices]
                 (Num (g / real period), Num (l / real period))"
  have "nonneg_pair ?avgs"
    using assms totals(2,3)
    by (intro fold_nonneg_pair rsi_smooth_step_nonneg) (auto simp: nonneg_pair_def)
  then obtain ag al where avgs: "?avgs = (Num ag, Num al)" "0 \<le> ag" "0 \<le> al"
    unfolding nonneg_pair_def by (cases ?avgs) (auto elim!: nonneg_numE)
  have nlt: "\<not> length ?prices < period + 1"
    using False by simp
  have pd: "js_div (Num x) (Num (real period)) = Num (x / real period)" for x
    using assms by simp
  have "calculateRSI ?prices period =
        js_sub (Num 100) (js_div (Num 100) (js_add (Num 1) (js_div (Num ag) (Num al))))"
    unfolding calculateRSI_def Let_def
    by (simp only: nlt if_False totals(1) fst_conv snd_conv pd avgs(1))
  then show ?thesis
    using rsi_final[OF avgs(2,3)] by (auto simp: in_0_100_def)
qed

lemma calculateRSI_short: "length xs < period + 1 \<Longrightarrow> calculateRSI xs period = Num 50"
  by (simp add: calculateRSI_def)

text \<open>
  Claim C4 fails on the program where the prices do not move: both averages are \<open>0\<close>, the
  final division is \<open>0 / 0\<close>, and \<open>calculateRSI\<close> returns \<open>NaN\<close>, which is not in the
  interval from 0 to 100. Three equal prices with period 2, and fifteen with period 14:
\<close>

theorem rsi_flat_prices_nan:
  "calculateRSI (map Num [5, 5, 5]) 2 = NaN \<and>
   calculateRSI
     (map Num [100, 100, 100, 100, 100, 100, 100, 100, 100, 100, 100, 100, 100, 100, 100]) 14
     = NaN \<and>
   \<not> in_0_100 NaN"
proof -
  have "calculateRSI (map Num [5, 5, 5]) 2 = NaN"
    by code_simp
  moreover have "calculateRSI
     (map Num [100, 100, 100, 100, 100, 100, 100, 100, 100, 100, 100, 100, 100, 100, 100]) 14
     = NaN"
    by code_simp
  ultimately show ?thesis
    by (simp add: in_0_100_def)
qed

section \<open>Average true range\<close>

lemma trueRange_first:
  "0 < length hs \<Longrightarrow> length ls = length hs \<Longrightarrow>
   trueRange (map Num hs) (map Num ls) (map Num cs) 0 = Num (hs ! 0 - ls ! 0)"
  by (simp add: trueRange_def Let_def)

lemma trueRange_later:
  assumes "0 < i" and "i < length hs" and "length ls = length hs" and "length cs = length hs"
  shows "nonneg_num (trueRange (map Num hs) (map Num ls) (map Num cs) i)"
  using assms by (simp add: trueRange_def Let_def le_max_iff_disj)

lemma atr_step_nonneg:
  assumes "0 < period" and "0 \<le> a" and "0 \<le> t"
  shows "0 \<le> (a * (real period - 1) + t) / real period"
proof -
  have "0 \<le> real period - 1" using assms(1) by simp
  then have "0 \<le> a * (real period - 1) + t"
    using assms(2,3) by simp
  then show ?thesis by simp
qed

lemma atr_loop_nonneg:
  assumes "0 < period"
  shows "nonneg_num acc \<Longrightarrow> \<forall>t \<in> set trs. nonneg_num t
    \<Longrightarrow> nonneg_num (atr_loop period acc trs)"
proof (induction trs arbitrary: acc)
  case Nil
  then show ?case by simp
next
  case (Cons t trs)
  from Cons.prems(1) obtain a where a: "acc = Num a" "0 \<le> a" by (rule nonneg_numE)
  from Cons.prems(2) have "nonneg_num t" by simp
  then obtain r where r: "t = Num r" "0 \<le> r" by (rule nonneg_numE)
  have "nonneg_num (js_div (js_add (js_mul acc (Num (real period - 1))) t) (Num (real period)))"
    using atr_step_nonneg[OF assms a(2) r(2)] assms by (simp add: a r)
  moreover have "\<forall>t \<in> set trs. nonneg_num t" using Cons.prems(2) by simp
  ultimately show ?case using Cons.IH by simp
qed

lemma calculateATR_nonneg:
  assumes "0 < period" and "length ls = length hs" and "length cs = length hs"
    and "2 \<le> length hs" and "ls ! 0 \<le> hs ! 0"
  shows "nonneg_num (calculateATR (map Num hs) (map Num ls) (map Num cs) period)"
proof -
  let ?tr = "trueRange (map Num hs) (map Num ls) (map Num cs)"
  have upt: "[0 ..< length hs] = 0 # [Suc 0 ..< length hs]"
    using assms(4) by (intro upt_conv_Cons) auto
  have pos: "0 < length hs"
    using assms(4) by linarith
  have first: "nonneg_num (?tr 0)"
    using assms(5) by (simp add: trueRange_first[OF pos assms(2)])
  have rest: "\<forall>t \<in> set (map ?tr [Suc 0 ..< length hs]). nonneg_num t"
    using assms(2,3) by (auto intro: trueRange_later)
  have "calculateATR (map Num hs) (map Num ls) (map Num cs) period =
        atr_loop period (?tr 0) (map ?tr [Suc 0 ..< length hs])"
    using assms(4) by (simp add: calculateATR_def Let_def upt js_get_def)
  then show ?thesis
    using atr_loop_nonneg[OF assms(1) first rest] by simp
qed

text \<open>
  Claim C6, as amended. \<open>calculateATR\<close> returns exactly \<open>0\<close> when it is given fewer than
  two highs. For finite lists of equal length and a period of at least \<open>1\<close>, the result is
  a finite number that is not negative, provided the first high is not below the first
  low.
\<close>

theorem atr_nonneg:
  "(length xs < 2 \<longrightarrow> calculateATR xs ys zs period = Num 0) \<and>
   (0 < period \<and> length ls = length hs \<and> length cs = length hs \<and>
    (hs \<noteq> [] \<longrightarrow> ls ! 0 \<le> hs ! 0) \<longrightarrow>
      nonneg_num (calculateATR (map Num hs) (map Num ls) (map Num cs) period))"
proof -
  have short: "length xs < 2 \<Longrightarrow> calculateATR xs ys zs period = Num 0" for xs
    by (simp add: calculateATR_def)
  have long: "nonneg_num (calculateATR (map Num hs) (map Num ls) (map Num cs) period)"
    if "0 < period" "length ls = length hs" "length cs = length hs"
      "hs \<noteq> [] \<longrightarrow> ls ! 0 \<le> hs ! 0"
  proof (cases "length hs < 2")
    case True
    then show ?thesis by (simp add: calculateATR_def)
  next
    case False
    then have "2 \<le> length hs" and "hs \<noteq> []" by auto
    then show ?thesis
      using that calculateATR_nonneg by blast
  qed
  show ?thesis
    using short long by blast
qed

theorem atr_nonneg_witness:
  "calculateATR (map Num [10, 11, 12, 13, 14]) (map Num [9, 10, 11, 12, 13])
     (map Num [19 / 2, 21 / 2, 23 / 2, 25 / 2, 27 / 2]) 5 = Num (1619 / 1250) \<and>
   nonneg_num (calculateATR (map Num [10, 11, 12, 13, 14]) (map Num [9, 10, 11, 12, 13])
     (map Num [19 / 2, 21 / 2, 23 / 2, 25 / 2, 27 / 2]) 5) \<and>
   calculateATR [Num 10] [Num 9] [Num (19 / 2)] 5 = Num 0"
proof -
  have v: "calculateATR (map Num [10, 11, 12, 13, 14]) (map Num [9, 10, 11, 12, 13])
     (map Num [19 / 2, 21 / 2, 23 / 2, 25 / 2, 27 / 2]) 5 = Num (1619 / 1250)"
    by code_simp
  show ?thesis
    using atr_nonneg [of "[Num 10]" "[Num 9]" "[Num (19 / 2)]" 5
        "[9, 10, 11, 12, 13]" "[10, 11, 12, 13, 14]" "[19 / 2, 21 / 2, 23 / 2, 25 / 2, 27 / 2]"]
      v
    by simp
qed

text \<open>
  The claim as written fails when the first high is below the first low: the first true
  range is then negative, and with period 2 so is the result.
\<close>

theorem atr_negative_example:
  "calculateATR (map Num [1, 1]) (map Num [5, 1]) (map Num [1, 1]) 2 = Num (- 2) \<and>
   \<not> nonneg_num (calculateATR (map Num [1, 1]) (map Num [5, 1]) (map Num [1, 1]) 2)"
proof -
  have "calculateATR (map Num [1, 1]) (map Num [5, 1]) (map Num [1, 1]) 2 = Num (- 2)"
    by (simp add: calculateATR_def trueRange_def js_get_def Let_def upt_conv_Cons)
  then show ?thesis by simp
qed


section \<open>The rolling history\<close>

lemma bollinger_completes:
  assumes "xs \<noteq> []"
  shows "\<exists>bands. calculateBollingerBands xs period stdDev = Inr bands"
proof (cases "length xs < period")
  case True
  then show ?thesis by (simp add: calculateBollingerBands_def Let_def)
next
  case False
  then have ne: "js_slice_last period xs \<noteq> []"
    using assms by (intro js_slice_last_nonempty) simp_all
  then obtain v where v: "js_reduce_add (js_slice_last period xs) = Some v"
    using js_reduce_add_nonempty by blast
  have "map (\<lambda>p. js_pow2 (js_sub p (js_div v (Num (real period)))))
          (js_slice_last period xs) \<noteq> []"
    using ne by simp
  then obtain w where w:
    "js_reduce_add (map (\<lambda>p. js_pow2 (js_sub p (js_div v (Num (real period)))))
          (js_slice_last period xs)) = Some w"
    using js_reduce_add_nonempty by blast
  show ?thesis
    using False by (simp add: calculateBollingerBands_def Let_def v w)
qed

lemma volatility_completes:
  assumes "xs \<noteq> []"
  shows "\<exists>vol. calculateVolatility xs period = Inr vol"
proof (cases "length xs < period")
  case True
  then show ?thesis by (simp add: calculateVolatility_def)
next
  case False
  then have ne: "js_slice_last period xs \<noteq> []"
    using assms by (intro js_slice_last_nonempty) simp_all
  then obtain v where v: "js_reduce_add (js_slice_last period xs) = Some v"
    using js_reduce_add_nonempty by blast
  have "map (\<lambda>p. js_pow2 (js_sub p (js_div v (Num (real period)))))
          (js_slice_last period xs) \<noteq> []"
    using ne by simp
  then obtain w where w:
    "js_reduce_add (map (\<lambda>p. js_pow2 (js_sub p (js_div v (Num (real period)))))
          (js_slice_last period xs)) = Some w"
    using js_reduce_add_nonempty by blast
  show ?thesis
    using False by (simp add: calculateVolatility_def Let_def v w)
qed

lemma calculateIndicators_completes:
  assumes "priceHistory st pairName = Some history" and "prices history \<noteq> []"
  shows "\<exists>enriched. calculateIndicators cfg st pairName marketData = Inr enriched"
proof -
  obtain bands where b: "calculateBollingerBands (prices history)
       (bbPeriod (volatilityConfig (indicatorConfig cfg)))
       (bbStdDev (volatilityConfig (indicatorConfig cfg))) = Inr bands"
    using bollinger_completes[OF assms(2)] by blast
  obtain vol where v: "calculateVolatility (prices history)
       (bbPeriod (volatilityConfig (indicatorConfig cfg))) = Inr vol"
    using volatility_completes[OF assms(2)] by blast
  show ?thesis
    by (simp add: calculateIndicators_def assms(1) Let_def b v)
qed

text \<open>
  A call of \<open>updateMarketData\<close> always completes: after the push the price list is not
  empty, so no indicator throws.
\<close>

lemma updateMarketData_completes:
  "\<exists>st'. updateMarketData cfg tradingPair marketData now st = Inr st'"
proof (cases "priceHistory st (name tradingPair)")
  case None
  then show ?thesis by (simp add: updateMarketData_def)
next
  case (Some history)
  let ?pushed = "pushSample history marketData"
  let ?st1 = "st\<lparr> priceHistory := (priceHistory st)(name tradingPair \<mapsto> ?pushed) \<rparr>"
  have "priceHistory ?st1 (name tradingPair) = Some ?pushed" by simp
  moreover have "prices ?pushed \<noteq> []" by (simp add: pushSample_def)
  ultimately obtain enriched where
    "calculateIndicators cfg ?st1 (name tradingPair) marketData = Inr enriched"
    using calculateIndicators_completes by blast
  then show ?thesis
    by (simp add: updateMarketData_def Some Let_def)
qed

lemma updateMarketData_history:
  assumes "updateMarketData cfg tradingPair marketData now st = Inr st'"
  shows "priceHistory st' =
     (case priceHistory st (name tradingPair) of
        None \<Rightarrow> priceHistory st
      | Some history \<Rightarrow>
          (priceHistory st)(name tradingPair \<mapsto>
             truncateHistory (maxPeriod cfg) (pushSample history marketData)))"
  using assms
  by (auto simp: updateMarketData_def Let_def split: option.splits sum.splits)

lemma historyAfter_update:
  "historyAfter (updateMarketData cfg tradingPair marketData now st) (name tradingPair) =
     map_option (\<lambda>history. truncateHistory (maxPeriod cfg) (pushSample history marketData))
       (priceHistory st (name tradingPair))"
proof -
  obtain st' where st': "updateMarketData cfg tradingPair marketData now st = Inr st'"
    using updateMarketData_completes by blast
  show ?thesis
    using updateMarketData_history[OF st']
    by (simp add: historyAfter_def st' split: option.splits)
qed

lemma truncate_within:
  assumes "0 < n"
    and "length (highs h) = length (prices h)"
    and "length (lows h) = length (prices h)"
    and "length (volumes h) = length (prices h)"
  shows "history_within n (truncateHistory n h)"
  using assms by (simp add: history_within_def truncateHistory_def length_js_slice_last)

lemma pushSample_parallel:
  assumes "history_within n h"
  shows "length (highs (pushSample h d)) = length (prices (pushSample h d))"
    and "length (lows (pushSample h d)) = length (prices (pushSample h d))"
    and "length (volumes (pushSample h d)) = length (prices (pushSample h d))"
  using assms by (simp_all add: history_within_def pushSample_def)

lemma reachable_within:
  assumes "reachable cfg st" and "0 < maxPeriod cfg"
  shows "priceHistory st pairName = Some h \<Longrightarrow> history_within (maxPeriod cfg) h"
  using assms(1)
proof (induction arbitrary: pairName h rule: reachable.induct)
  case (fresh st)
  then show ?case by simp
next
  case (registered st tradingPair)
  then show ?case
    by (auto simp: initializePairHistory_def emptyHistory_def history_within_def
        split: if_splits)
next
  case (updated st tradingPair marketData now st')
  note hist = updateMarketData_history[OF updated.hyps(2)]
  show ?case
  proof (cases "priceHistory st (name tradingPair)")
    case None
    then show ?thesis using hist updated.IH updated.prems by simp
  next
    case (Some h0)
    have h0: "history_within (maxPeriod cfg) h0"
      using updated.IH Some by blast
    show ?thesis
    proof (cases "pairName = name tradingPair")
      case True
      then have "h = truncateHistory (maxPeriod cfg) (pushSample h0 marketData)"
        using hist Some updated.prems by simp
      then show ?thesis
        using truncate_within[OF assms(2) pushSample_parallel[OF h0]] by simp
    next
      case False
      then have "priceHistory st pairName = Some h"
        using hist Some updated.prems by simp
      then show ?thesis using updated.IH by blast
    qed
  qed
qed

lemma maxPeriod_Max:
  "maxPeriod cfg = Max (insert (bbPeriod (volatilityConfig (indicatorConfig cfg)) * 2)
                          (set (emaPeriods (indicatorConfig cfg))))"
proof -
  have "foldr max xs (b::nat) = Max (insert b (set xs))" for xs b
  proof (induction xs)
    case Nil
    then show ?case by simp
  next
    case (Cons a xs)
    have "Max (insert b (set (a # xs))) = Max (insert a (insert b (set xs)))"
      by (simp add: insert_commute)
    also have "\<dots> = max a (Max (insert b (set xs)))"
      by (rule Max_insert) simp_all
    finally show ?case using Cons.IH by simp
  qed
  then show ?thesis by (simp add: maxPeriod_def)
qed

text \<open>
  What the truncation keeps of parallel sequences: each loses the same number of its
  oldest elements, \<open>length - n\<close> of them when the length is over the bound \<open>n\<close>.
\<close>

lemma truncate_drops_oldest:
  assumes "0 < n"
    and "length (highs h) = length (prices h)"
    and "length (lows h) = length (prices h)"
    and "length (volumes h) = length (prices h)"
  shows "prices (truncateHistory n h) = drop (length (prices h) - n) (prices h) \<and>
         highs (truncateHistory n h) = drop (length (prices h) - n) (highs h) \<and>
         lows (truncateHistory n h) = drop (length (prices h) - n) (lows h) \<and>
         volumes (truncateHistory n h) = drop (length (prices h) - n) (volumes h)"
  using assms by (simp add: truncateHistory_def js_slice_last_def)

lemma truncateHistory_example:
  "truncateHistory 2
     \<lparr> prices = [Num 1, Num 2, Num 3], highs = [Num 1, Num 2, Num 3],
       lows = [Num 1, Num 2, Num 3], volumes = [Num 7, Num 8, Num 9] \<rparr> =
     \<lparr> prices = [Num 2, Num 3], highs = [Num 2, Num 3],
       lows = [Num 2, Num 3], volumes = [Num 8, Num 9] \<rparr>"
  by (simp add: truncateHistory_def js_slice_last_def)

text \<open>
  Claim C3, as amended. Let \<open>maxPeriod\<close>, the greatest of the EMA periods and twice the
  Bollinger period, be at least \<open>1\<close>. After a completed \<open>updateMarketData\<close> call from a
  state reached from the empty history, every pair's four sequences have the same length,
  at most \<open>maxPeriod\<close>; and the updated pair's sequences are the old ones with the new
  sample appended, less their oldest elements, the same number from each.
\<close>

theorem rolling_history_bounded:
  assumes "reachable cfg st" and "0 < maxPeriod cfg"
    and "updateMarketData cfg tradingPair marketData now st = Inr st'"
  shows "maxPeriod cfg = Max (insert (bbPeriod (volatilityConfig (indicatorConfig cfg)) * 2)
                               (set (emaPeriods (indicatorConfig cfg)))) \<and>
         (\<forall>pairName h'. priceHistory st' pairName = Some h' \<longrightarrow>
            history_within (maxPeriod cfg) h') \<and>
         (\<forall>h. priceHistory st (name tradingPair) = Some h \<longrightarrow>
            (\<exists>h'. priceHistory st' (name tradingPair) = Some h' \<and>
               prices h' = drop (length (prices h) + 1 - maxPeriod cfg)
                             (prices h @ [price marketData]) \<and>
               highs h' = drop (length (prices h) + 1 - maxPeriod cfg)
                            (highs h @ [price marketData]) \<and>
               lows h' = drop (length (prices h) + 1 - maxPeriod cfg)
                           (lows h @ [price marketData]) \<and>
               volumes h' = drop (length (prices h) + 1 - maxPeriod cfg)
                              (volumes h @ [volume24h marketData])))"
proof -
  have after: "reachable cfg st'"
    using assms(1,3) by (rule reachable.updated)
  have bounded: "\<forall>pairName h'. priceHistory st' pairName = Some h' \<longrightarrow>
            history_within (maxPeriod cfg) h'"
    using reachable_within[OF after assms(2)] by blast
  have evict: "\<exists>h'. priceHistory st' (name tradingPair) = Some h' \<and>
               prices h' = drop (length (prices h) + 1 - maxPeriod cfg)
                             (prices h @ [price marketData]) \<and>
               highs h' = drop (length (prices h) + 1 - maxPeriod cfg)
                            (highs h @ [price marketData]) \<and>
               lows h' = drop (length (prices h) + 1 - maxPeriod cfg)
                           (lows h @ [price marketData]) \<and>
               volumes h' = drop (length (prices h) + 1 - maxPeriod cfg)
                              (volumes h @ [volume24h marketData])"
    if h: "priceHistory st (name tradingPair) = Some h" for h
  proof -
    have within: "history_within (maxPeriod cfg) h"
      using reachable_within[OF assms(1,2) h] .
    have "priceHistory st' (name tradingPair) =
            Some (truncateHistory (maxPeriod cfg) (pushSample h marketData))"
      using updateMarketData_history[OF assms(3)] h by simp
    moreover have "length (prices (pushSample h marketData)) = length (prices h) + 1"
      by (simp add: pushSample_def)
    ultimately show ?thesis
      using truncate_drops_oldest[OF assms(2) pushSample_parallel[OF within], of marketData]
      by (simp add: pushSample_def)
  qed
  show ?thesis
    using maxPeriod_Max bounded evict by blast
qed

lemma maxPeriod_testConfig: "maxPeriod testConfig = 40"
  by (simp add: maxPeriod_def testConfig_def)

lemma maxPeriod_zeroPeriodConfig: "maxPeriod zeroPeriodConfig = 0"
  by (simp add: maxPeriod_def zeroPeriodConfig_def)

lemma reachable_registered_new:
  "reachable cfg (initializePairHistory newMonitorState testPair)"
  by (intro reachable.registered reachable.fresh) (simp add: newMonitorState_def)

theorem rolling_history_bounded_witness:
  "maxPeriod testConfig = 40 \<and>
   historyAfter
     (updateMarketData testConfig testPair testData 0
        (initializePairHistory newMonitorState testPair)) ''SOL/USDC'' =
     Some \<lparr> prices = [Num 100], highs = [Num 100], lows = [Num 100],
            volumes = [Num 1000000] \<rparr> \<and>
   history_within 40
     \<lparr> prices = [Num 100], highs = [Num 100], lows = [Num 100], volumes = [Num 1000000] \<rparr>"
proof -
  let ?st = "initializePairHistory newMonitorState testPair"
  obtain st' where st': "updateMarketData testConfig testPair testData 0 ?st = Inr st'"
    using updateMarketData_completes by blast
  have pos: "0 < maxPeriod testConfig"
    by (simp add: maxPeriod_testConfig)
  have h: "priceHistory ?st (name testPair) = Some emptyHistory"
    by (simp add: initializePairHistory_def)
  have nm: "name testPair = ''SOL/USDC''"
    by (simp add: testPair_def)
  from rolling_history_bounded [OF reachable_registered_new pos st']
  have bounded: "\<forall>pairName h'. priceHistory st' pairName = Some h' \<longrightarrow>
            history_within (maxPeriod testConfig) h'"
    and evict: "\<forall>h. priceHistory ?st (name testPair) = Some h \<longrightarrow>
            (\<exists>h'. priceHistory st' (name testPair) = Some h' \<and>
               prices h' = drop (length (prices h) + 1 - maxPeriod testConfig)
                             (prices h @ [price testData]) \<and>
               highs h' = drop (length (prices h) + 1 - maxPeriod testConfig)
                            (highs h @ [price testData]) \<and>
               lows h' = drop (length (prices h) + 1 - maxPeriod testConfig)
                           (lows h @ [price testData]) \<and>
               volumes h' = drop (length (prices h) + 1 - maxPeriod testConfig)
                              (volumes h @ [volume24h testData]))"
    by blast+
  from evict h obtain h' where h': "priceHistory st' (name testPair) = Some h'"
    and p: "prices h' = [Num 100]" "highs h' = [Num 100]" "lows h' = [Num 100]"
       "volumes h' = [Num 1000000]"
    by (auto simp: emptyHistory_def maxPeriod_testConfig testData_def)
  have eq: "h' = \<lparr> prices = [Num 100], highs = [Num 100], lows = [Num 100],
                   volumes = [Num 1000000] \<rparr>"
    using p by (cases h') simp
  have "history_within (maxPeriod testConfig) h'"
    using bounded h' by blast
  then show ?thesis
    using h' eq by (simp add: historyAfter_def st' nm maxPeriod_testConfig)
qed

text \<open>
  The claim as written fails when \<open>maxPeriod\<close> is \<open>0\<close> (no EMA period and a Bollinger
  period of \<open>0\<close>): \<open>slice(-0)\<close> keeps the whole array, so after one update the sequences
  have length \<open>1\<close>.
\<close>

theorem rolling_history_zero_period:
  "maxPeriod zeroPeriodConfig = 0 \<and>
   reachable zeroPeriodConfig (initializePairHistory newMonitorState testPair) \<and>
   historyAfter
     (updateMarketData zeroPeriodConfig testPair testData 0
        (initializePairHistory newMonitorState testPair)) ''SOL/USDC'' =
     Some \<lparr> prices = [Num 100], highs = [Num 100], lows = [Num 100],
            volumes = [Num 1000000] \<rparr> \<and>
   \<not> history_within (maxPeriod zeroPeriodConfig)
       \<lparr> prices = [Num 100], highs = [Num 100], lows = [Num 100],
         volumes = [Num 1000000] \<rparr>"
proof -
  have nm: "name testPair = ''SOL/USDC''"
    by (simp add: testPair_def)
  have "historyAfter
     (updateMarketData zeroPeriodConfig testPair testData 0
        (initializePairHistory newMonitorState testPair)) (name testPair) =
     Some \<lparr> prices = [Num 100], highs = [Num 100], lows = [Num 100],
            volumes = [Num 1000000] \<rparr>"
    unfolding historyAfter_update
    by (simp add: initializePairHistory_def emptyHistory_def pushSample_def truncateHistory_def
        maxPeriod_zeroPeriodConfig js_slice_last_def testData_def)
  then show ?thesis
    using reachable_registered_new
    by (simp add: nm maxPeriod_zeroPeriodConfig history_within_def)
qed


section \<open>Alerts\<close>

text \<open>
  Claim C8. The alerts \<open>checkAlertConditions\<close> collects hold a \<open>PRICE_CHANGE\<close> alert
  exactly when \<open>|priceChange24h| > alertThresholds.priceChange\<close> (for finite values: when
  the absolute value of the change is over the threshold), and that alert has severity
  \<open>HIGH\<close>. The collected alerts are written to the store in one \<open>set\<close> call when there
  is at least one; when none of the three conditions holds, nothing is collected and the
  store is left as it was.
\<close>

theorem price_change_alert_iff:
  "((\<exists>a \<in> set (collectAlerts cfg pairName marketData now). alertType a = PRICE_CHANGE) \<longleftrightarrow>
      js_gt (js_abs (priceChange24h marketData)) (priceChange (alertThresholds cfg))) \<and>
   (priceChange24h marketData = Num c \<and> priceChange (alertThresholds cfg) = Num t \<longrightarrow>
      ((\<exists>a \<in> set (collectAlerts cfg pairName marketData now). alertType a = PRICE_CHANGE)
        \<longleftrightarrow> t < \<bar>c\<bar>)) \<and>
   (\<forall>a \<in> set (collectAlerts cfg pairName marketData now).
      alertType a = PRICE_CHANGE \<longrightarrow> severity a = HIGH) \<and>
   checkAlertConditions cfg pairName marketData now db =
     (if collectAlerts cfg pairName marketData now = [] then db
      else db @ [(AlertsKey pairName now,
                  StoredAlerts (collectAlerts cfg pairName marketData now))]) \<and>
   (\<not> js_gt (js_abs (priceChange24h marketData)) (priceChange (alertThresholds cfg)) \<and>
    \<not> js_gt (volume24h marketData)
         (js_mul (volumeThreshold cfg) (volumeSpike (alertThresholds cfg))) \<and>
    \<not> js_lt (liquidity marketData) (lowLiquidity (alertThresholds cfg)) \<longrightarrow>
      collectAlerts cfg pairName marketData now = [] \<and>
      checkAlertConditions cfg pairName marketData now db = db)"
proof -
  have iff: "(\<exists>a \<in> set (collectAlerts cfg pairName marketData now). alertType a = PRICE_CHANGE)
      \<longleftrightarrow> js_gt (js_abs (priceChange24h marketData)) (priceChange (alertThresholds cfg))"
    by (auto simp: collectAlerts_def Let_def)
  have finite: "js_gt (js_abs (priceChange24h marketData)) (priceChange (alertThresholds cfg))
      \<longleftrightarrow> t < \<bar>c\<bar>"
    if "priceChange24h marketData = Num c" "priceChange (alertThresholds cfg) = Num t"
    using that by simp
  have high: "\<forall>a \<in> set (collectAlerts cfg pairName marketData now).
      alertType a = PRICE_CHANGE \<longrightarrow> severity a = HIGH"
    by (auto simp: collectAlerts_def Let_def)
  have written: "checkAlertConditions cfg pairName marketData now db =
     (if collectAlerts cfg pairName marketData now = [] then db
      else db @ [(AlertsKey pairName now,
                  StoredAlerts (collectAlerts cfg pairName marketData now))])"
    by (simp add: checkAlertConditions_def Let_def)
  have none: "collectAlerts cfg pairName marketData now = []"
    if "\<not> js_gt (js_abs (priceChange24h marketData)) (priceChange (alertThresholds cfg))"
      "\<not> js_gt (volume24h marketData)
         (js_mul (volumeThreshold cfg) (volumeSpike (alertThresholds cfg)))"
      "\<not> js_lt (liquidity marketData) (lowLiquidity (alertThresholds cfg))"
    using that by (simp add: collectAlerts_def)
  have finite': "priceChange24h marketData = Num c \<and> priceChange (alertThresholds cfg) = Num t
      \<longrightarrow> ((\<exists>a \<in> set (collectAlerts cfg pairName marketData now).
              alertType a = PRICE_CHANGE) \<longleftrightarrow> t < \<bar>c\<bar>)"
    using iff finite by blast
  have none': "\<not> js_gt (js_abs (priceChange24h marketData)) (priceChange (alertThresholds cfg)) \<and>
    \<not> js_gt (volume24h marketData)
         (js_mul (volumeThreshold cfg) (volumeSpike (alertThresholds cfg))) \<and>
    \<not> js_lt (liquidity marketData) (lowLiquidity (alertThresholds cfg)) \<longrightarrow>
      collectAlerts cfg pairName marketData now = [] \<and>
      checkAlertConditions cfg pairName marketData now db = db"
    using none written by simp
  show ?thesis
    by (intro conjI iff finite' high written none')
qed

theorem price_change_alert_iff_witness:
  "collectAlerts testConfig ''SOL/USDC'' testData 0 =
     [\<lparr> alertType = PRICE_CHANGE, severity = HIGH,
        message = PriceChanged ''SOL/USDC'' (Num 10), alertTimestamp = 0 \<rparr>] \<and>
   checkAlertConditions testConfig ''SOL/USDC'' testData 0 [] =
     [(AlertsKey ''SOL/USDC'' 0,
       StoredAlerts [\<lparr> alertType = PRICE_CHANGE, severity = HIGH,
                       message = PriceChanged ''SOL/USDC'' (Num 10), alertTimestamp = 0 \<rparr>])] \<and>
   checkAlertConditions testConfig ''SOL/USDC''
     (testData\<lparr> priceChange24h := Num (5 / 2) \<rparr>) 0 [] = []"
proof -
  have alerts: "collectAlerts testConfig ''SOL/USDC'' testData 0 =
     [\<lparr> alertType = PRICE_CHANGE, severity = HIGH,
        message = PriceChanged ''SOL/USDC'' (Num 10), alertTimestamp = 0 \<rparr>]"
    by (simp add: collectAlerts_def testConfig_def testData_def)
  have quiet:
    "\<not> js_gt (js_abs (priceChange24h (testData\<lparr> priceChange24h := Num (5 / 2) \<rparr>)))
          (priceChange (alertThresholds testConfig)) \<and>
     \<not> js_gt (volume24h (testData\<lparr> priceChange24h := Num (5 / 2) \<rparr>))
          (js_mul (volumeThreshold testConfig) (volumeSpike (alertThresholds testConfig))) \<and>
     \<not> js_lt (liquidity (testData\<lparr> priceChange24h := Num (5 / 2) \<rparr>))
          (lowLiquidity (alertThresholds testConfig))"
    by (simp add: testConfig_def testData_def)
  show ?thesis
    using price_change_alert_iff [of testConfig "''SOL/USDC''" testData 0 10 5 "[]"]
      price_change_alert_iff
        [of testConfig "''SOL/USDC''" "testData\<lparr> priceChange24h := Num (5 / 2) \<rparr>" 0
            "5 / 2" 5 "[]"]
      quiet
    by (simp add: alerts)
qed


end
